theory Spec2Isabelle
  imports Main
begin

section \<open>Go error values\<close>

text \<open>
  An \<open>error\<close> of the Go program is a value of \<open>go_error\<close>; the nil error is \<open>None\<close> of
  \<open>go_error option\<close>.  The two sentinels the code compares against are constructors of
  their own: \<open>io_EOF\<close> (package io) and \<open>ErrStopIteration\<close> (declared next to
  \<open>JSONStream\<close>).  \<open>errors_New msg\<close> is what \<open>errors.New(msg)\<close> returns, and
  \<open>Wrapped msg e\<close> is an error that wraps \<open>e\<close>, as \<open>fmt.Errorf("msg: %w", e)\<close> builds it.
\<close>

datatype go_error = io_EOF | ErrStopIteration | errors_New string | Wrapped string go_error

text \<open>
  \<open>errors.Is(err, target)\<close>: \<open>err\<close> matches when it is the target or when an error on its
  chain of wrapped errors is.  The code never compares errors with \<open>==\<close>; every test of
  an error goes through \<open>errors.Is\<close>.
\<close>

fun errors_Is :: "go_error \<Rightarrow> go_error \<Rightarrow> bool" where
  "errors_Is (Wrapped msg inner) target = (Wrapped msg inner = target \<or> errors_Is inner target)"
| "errors_Is err target = (err = target)"

section \<open>The JSON Lines stream\<close>

text \<open>
  The part of \<open>http.Response\<close> the stream uses: the status code, the bytes of the body,
  and the body's \<open>Close\<close> method.  \<open>Body_Close_result\<close> is the error that
  \<open>resp.Body.Close()\<close> returns, \<open>Body_Close_calls\<close> counts how often it has been called:
  it is the release of the underlying connection.  \<open>Body_Read_error\<close> is the error, other
  than end of file, that reading the body runs into once the bytes of \<open>Body\<close> have been
  delivered (\<open>None\<close>: the body ends with a clean end of file).
\<close>

record http_Response =
  StatusCode :: int
  Body :: string
  Body_Read_error :: "go_error option"
  Body_Close_result :: "go_error option"
  Body_Close_calls :: nat

definition Body_Close :: "http_Response \<Rightarrow> go_error option \<times> http_Response" where
  "Body_Close r = (Body_Close_result r, r\<lparr>Body_Close_calls := Suc (Body_Close_calls r)\<rparr>)"

text \<open>
  \<open>type JSONStream struct { resp *http.Response; dec *json.Decoder; closed bool }\<close>.
  The decoder belongs to encoding/json; the model keeps its state abstract (a value of
  \<open>'s\<close>: the input it has not consumed yet) and takes its \<open>Decode\<close> method as a
  parameter: \<open>D d v\<close> is the call \<open>dec.Decode(&v)\<close> in decoder state \<open>d\<close> with
  destination \<open>v\<close>, and returns the error, the destination as the call leaves it, and
  the next decoder state.  A \<open>*JSONStream\<close> is a \<open>JSONStream option\<close>, \<open>None\<close> the nil
  pointer; every method returns the stream as it leaves it.
\<close>

record 's JSONStream =
  resp :: http_Response
  dec :: 's
  closed :: bool

type_synonym ('s, 'a) Decode = "'s \<Rightarrow> 'a \<Rightarrow> go_error option \<times> 'a \<times> 's"

definition newJSONStream :: "(http_Response \<Rightarrow> 's) \<Rightarrow> http_Response \<Rightarrow> 's JSONStream option" where
  "newJSONStream json_NewDecoder r =
     Some \<lparr>resp = r, dec = json_NewDecoder r, closed = False\<rparr>"

definition Close :: "'s JSONStream option \<Rightarrow> go_error option \<times> 's JSONStream option" where
  "Close s =
     (case s of
        None \<Rightarrow> (None, None)
      | Some st \<Rightarrow>
          if closed st then (None, Some st)
          else (case Body_Close (resp st) of
                  (err, r) \<Rightarrow> (err, Some (st\<lparr>closed := True, resp := r\<rparr>))))"

definition Next ::
  "('s, 'a) Decode \<Rightarrow> 's JSONStream option \<Rightarrow> 'a \<Rightarrow> go_error option \<times> 's JSONStream option \<times> 'a"
where
  "Next D s v =
     (case s of
        None \<Rightarrow> (Some (errors_New ''nil stream''), None, v)
      | Some st \<Rightarrow>
          if closed st then (Some io_EOF, Some st, v)
          else (case D (dec st) v of
                  (None, v', d') \<Rightarrow> (None, Some (st\<lparr>dec := d'\<rparr>), v')
                | (Some err, v', d') \<Rightarrow>
                    if errors_Is err io_EOF
                    then (Some io_EOF, snd (Close (Some (st\<lparr>dec := d'\<rparr>))), v')
                    else (Some err, snd (Close (Some (st\<lparr>dec := d'\<rparr>))), v')))"

text \<open>
  \<open>Iterate[T]\<close>.  The callback \<open>fn func(*T) error\<close> is a closure: \<open>'c\<close> is the state it
  captures (the test's \<open>ids\<close> slice), and \<open>fn item c\<close> returns its error and the state it
  leaves.  \<open>zero\<close> is the zero value of \<open>T\<close>, the \<open>var item T\<close> declared afresh in each
  round of the loop.  The callback does not reach the stream itself (the callbacks of
  the tests do not capture it).  The \<open>for\<close> loop has no bound of its own, so it is a
  partial function: \<open>None\<close> is the run that never returns.
\<close>

partial_function (option) Iterate_loop ::
  "('s, 'a) Decode \<Rightarrow> 'a \<Rightarrow> 's JSONStream option \<Rightarrow> ('a \<Rightarrow> 'c \<Rightarrow> go_error option \<times> 'c) \<Rightarrow> 'c
     \<Rightarrow> (go_error option \<times> 's JSONStream option \<times> 'c) option"
where
  "Iterate_loop D zero s fn c =
     (case Next D s zero of
        (Some err, s1, item) \<Rightarrow>
          if errors_Is err io_EOF then Some (None, s1, c) else Some (Some err, s1, c)
      | (None, s1, item) \<Rightarrow>
          (case fn item c of
             (Some err, c1) \<Rightarrow>
               if errors_Is err ErrStopIteration
               then (case Close s1 of
                       (None, s2) \<Rightarrow> Some (None, s2, c1)
                     | (Some cerr, s2) \<Rightarrow>
                         if errors_Is cerr io_EOF then Some (None, s2, c1)
                         else Some (Some cerr, s2, c1))
               else Some (Some err, snd (Close s1), c1)
           | (None, c1) \<Rightarrow> Iterate_loop D zero s1 fn c1))"

definition Iterate ::
  "('s, 'a) Decode \<Rightarrow> 'a \<Rightarrow> 's JSONStream option \<Rightarrow> ('a \<Rightarrow> 'c \<Rightarrow> go_error option \<times> 'c) option \<Rightarrow> 'c
     \<Rightarrow> (go_error option \<times> 's JSONStream option \<times> 'c) option"
where
  "Iterate D zero s fn c =
     (case s of
        None \<Rightarrow> Some (Some (errors_New ''nil stream''), None, c)
      | Some st \<Rightarrow>
          (case fn of
             None \<Rightarrow> Some (Some (errors_New ''nil iterator callback''), Some st, c)
           | Some f \<Rightarrow> Iterate_loop D zero (Some st) f c))"

subsection \<open>Sequences of calls, and what a stream holds\<close>

text \<open>
  A caller drives a stream by calling \<open>Next\<close> and \<open>Close\<close> in any order; \<open>calls\<close> runs
  such a sequence (every \<open>Next\<close> with destination \<open>v\<close>) and returns the stream it leaves.
\<close>

datatype stream_call = call_Next | call_Close

fun calls ::
  "('s, 'a) Decode \<Rightarrow> 'a \<Rightarrow> stream_call list \<Rightarrow> 's JSONStream option \<Rightarrow> 's JSONStream option"
where
  "calls D v [] s = s"
| "calls D v (call_Next # cs) s = calls D v cs (fst (snd (Next D s v)))"
| "calls D v (call_Close # cs) s = calls D v cs (snd (Close s))"

text \<open>
  \<open>released_once s n\<close>: the body of stream \<open>s\<close>, which had been closed \<open>n\<close> times when the
  stream was made, has been closed once more exactly when the stream is closed.
\<close>

definition released_once :: "'s JSONStream option \<Rightarrow> nat \<Rightarrow> bool" where
  "released_once s n =
     (case s of
        None \<Rightarrow> False
      | Some st \<Rightarrow> Body_Close_calls (resp st) = (if closed st then Suc n else n))"

text \<open>The stream \<open>st\<close> after its decoder went to state \<open>d\<close> and \<open>Close\<close> ran on it.\<close>

definition closed_stream :: "'s JSONStream \<Rightarrow> 's \<Rightarrow> 's JSONStream" where
  "closed_stream st d = st\<lparr>dec := d, closed := True, resp := snd (Body_Close (resp st))\<rparr>"

text \<open>
  \<open>yields D zero d xs d'\<close>: read from decoder state \<open>d\<close>, each time into a fresh
  destination \<open>zero\<close>, the input holds the records \<open>xs\<close>, in this order, and then ends
  (the decoder reports end of file and is left in state \<open>d'\<close>).
\<close>

inductive yields :: "('s, 'a) Decode \<Rightarrow> 'a \<Rightarrow> 's \<Rightarrow> 'a list \<Rightarrow> 's \<Rightarrow> bool"
  for D :: "('s, 'a) Decode" and zero :: 'a
where
  yields_EOF:
    "D d zero = (Some err, v, d') \<Longrightarrow> errors_Is err io_EOF \<Longrightarrow> yields D zero d [] d'"
| yields_record:
    "D d zero = (None, x, d1) \<Longrightarrow> yields D zero d1 xs d' \<Longrightarrow> yields D zero d (x # xs) d'"

text \<open>
  \<open>delivered D zero fn d c xs d' c'\<close>: from decoder state \<open>d\<close> and callback state \<open>c\<close> the
  records \<open>xs\<close> are decoded one after the other and the callback returns nil on each of
  them, which leaves the decoder in \<open>d'\<close> and the callback in \<open>c'\<close>.
\<close>

inductive delivered ::
  "('s, 'a) Decode \<Rightarrow> 'a \<Rightarrow> ('a \<Rightarrow> 'c \<Rightarrow> go_error option \<times> 'c) \<Rightarrow> 's \<Rightarrow> 'c \<Rightarrow> 'a list \<Rightarrow> 's \<Rightarrow> 'c \<Rightarrow> bool"
  for D :: "('s, 'a) Decode" and zero :: 'a and fn :: "'a \<Rightarrow> 'c \<Rightarrow> go_error option \<times> 'c"
where
  delivered_none: "delivered D zero fn d c [] d c"
| delivered_record:
    "D d zero = (None, x, d1) \<Longrightarrow> fn x c = (None, c1) \<Longrightarrow> delivered D zero fn d1 c1 xs d' c'
     \<Longrightarrow> delivered D zero fn d c (x # xs) d' c'"

section \<open>encoding/json on a fragment of JSON, for the examples\<close>

text \<open>
  The theorems below take the functions of encoding/json as parameters.  The examples
  (the streams of the repository's tests, the witnesses and the counterexamples) need
  them on concrete bytes; this section gives them on a fragment of JSON: objects,
  arrays, strings with the one-letter escapes, \<open>true\<close>, \<open>false\<close>, \<open>null\<close> and integer
  numbers.  Input outside the fragment (a Unicode escape in a string, a number with a
  fraction or an exponent) is reported as a syntax error, which is not what Go does; no
  example uses such input.

  \<open>any\<close> is the Go value that \<open>json.Unmarshal\<close> stores into an \<open>any\<close>: nil, bool,
  float64, string, \<open>[]any\<close> and \<open>map[string]any\<close>.  A float64 is represented by the
  integer it holds.
\<close>

datatype any = any_nil | any_bool bool | any_float64 int | any_string string
  | any_slice "any list" | any_map "(string \<times> any) list"

definition is_space :: "char \<Rightarrow> bool" where
  "is_space c = (c = CHR '' '' \<or> c = CHR 0x09 \<or> c = CHR 0x0A \<or> c = CHR 0x0D)"

definition skip_space :: "string \<Rightarrow> string" where
  "skip_space = dropWhile is_space"

definition is_digit :: "char \<Rightarrow> bool" where
  "is_digit c = (c \<in> set ''0123456789'')"

definition digit_val :: "char \<Rightarrow> int" where
  "digit_val c = int (of_char c) - 48"

definition unescape :: "char \<Rightarrow> char option" where
  "unescape e =
     (if e = CHR 0x22 \<or> e = CHR 0x5C \<or> e = CHR ''/'' then Some e
      else if e = CHR ''n'' then Some (CHR 0x0A)
      else if e = CHR ''t'' then Some (CHR 0x09)
      else if e = CHR ''r'' then Some (CHR 0x0D)
      else if e = CHR ''b'' then Some (CHR 0x08)
      else if e = CHR ''f'' then Some (CHR 0x0C)
      else None)"

text \<open>The rest of a string literal after its opening quote: its content and what follows.\<close>

fun scan_string :: "string \<Rightarrow> (string \<times> string) option" where
  "scan_string [] = None"
| "scan_string [c] = (if c = CHR 0x22 then Some ([], []) else None)"
| "scan_string (c # e # cs) =
     (if c = CHR 0x22 then Some ([], e # cs)
      else if c = CHR 0x5C then
        (case unescape e of
           None \<Rightarrow> None
         | Some ch \<Rightarrow> map_option (apfst ((#) ch)) (scan_string cs))
      else if (of_char c :: nat) < 32 then None
      else map_option (apfst ((#) c)) (scan_string (e # cs)))"

definition scan_digits :: "string \<Rightarrow> (int \<times> string) option" where
  "scan_digits s =
     (let ds = takeWhile is_digit s; r = dropWhile is_digit s in
      if ds = [] \<or> (hd ds = CHR ''0'' \<and> tl ds \<noteq> []) then None
      else if r \<noteq> [] \<and> hd r \<in> set ''.eE'' then None
      else Some (foldl (\<lambda>n d. 10 * n + digit_val d) 0 ds, r))"

definition scan_number :: "string \<Rightarrow> (int \<times> string) option" where
  "scan_number s =
     (case s of
        [] \<Rightarrow> None
      | c # cs \<Rightarrow> if c = CHR ''-'' then map_option (apfst uminus) (scan_digits cs)
                 else scan_digits s)"

text \<open>
  One JSON value at the head of the input, and the input after it.  The first argument
  bounds the depth of the recursion; \<open>json_parse\<close> starts it high enough for its input.
\<close>

fun parse_value :: "nat \<Rightarrow> string \<Rightarrow> (any \<times> string) option"
and parse_elems :: "nat \<Rightarrow> string \<Rightarrow> (any list \<times> string) option"
and parse_members :: "nat \<Rightarrow> string \<Rightarrow> ((string \<times> any) list \<times> string) option"
where
  "parse_value 0 s = None"
| "parse_value (Suc n) s =
     (case skip_space s of
        [] \<Rightarrow> None
      | c # cs \<Rightarrow>
          if c = CHR ''{'' then
            (case skip_space cs of
               [] \<Rightarrow> None
             | d # ds \<Rightarrow> if d = CHR ''}'' then Some (any_map [], ds)
                        else map_option (apfst any_map) (parse_members n cs))
          else if c = CHR ''['' then
            (case skip_space cs of
               [] \<Rightarrow> None
             | d # ds \<Rightarrow> if d = CHR '']'' then Some (any_slice [], ds)
                        else map_option (apfst any_slice) (parse_elems n cs))
          else if c = CHR 0x22 then map_option (apfst any_string) (scan_string cs)
          else if take 4 (c # cs) = ''true'' then Some (any_bool True, drop 3 cs)
          else if take 5 (c # cs) = ''false'' then Some (any_bool False, drop 4 cs)
          else if take 4 (c # cs) = ''null'' then Some (any_nil, drop 3 cs)
          else map_option (apfst any_float64) (scan_number (c # cs)))"
| "parse_elems 0 s = None"
| "parse_elems (Suc n) s =
     (case parse_value n s of
        None \<Rightarrow> None
      | Some (v, r) \<Rightarrow>
          (case skip_space r of
             [] \<Rightarrow> None
           | c # cs \<Rightarrow>
               if c = CHR '','' then map_option (apfst ((#) v)) (parse_elems n cs)
               else if c = CHR '']'' then Some ([v], cs)
               else None))"
| "parse_members 0 s = None"
| "parse_members (Suc n) s =
     (case skip_space s of
        [] \<Rightarrow> None
      | q # qs \<Rightarrow>
          if q = CHR 0x22 then
            (case scan_string qs of
               None \<Rightarrow> None
             | Some (k, r) \<Rightarrow>
                 (case skip_space r of
                    [] \<Rightarrow> None
                  | c # cs \<Rightarrow>
                      if c = CHR '':'' then
                        (case parse_value n cs of
                           None \<Rightarrow> None
                         | Some (v, r') \<Rightarrow>
                             (case skip_space r' of
                                [] \<Rightarrow> None
                              | e # es \<Rightarrow>
                                  if e = CHR '','' then
                                    map_option (apfst ((#) (k, v))) (parse_members n es)
                                  else if e = CHR ''}'' then Some ([(k, v)], es)
                                  else None))
                      else None))
          else None)"

definition json_parse :: "string \<Rightarrow> (any \<times> string) option" where
  "json_parse s = parse_value (Suc (2 * length s)) s"

definition json_SyntaxError :: go_error where
  "json_SyntaxError = errors_New ''json: syntax error''"

definition json_UnmarshalTypeError :: go_error where
  "json_UnmarshalTypeError = errors_New ''json: cannot unmarshal value into Go value''"

text \<open>encoding/json keeps the first type error of a value and goes on decoding it.\<close>

definition first_error :: "go_error option \<Rightarrow> go_error \<Rightarrow> go_error option" where
  "first_error err e = (case err of None \<Rightarrow> Some e | Some e0 \<Rightarrow> Some e0)"

text \<open>A key of an object matches a field of a struct whatever its letter case.\<close>

definition to_lower :: "char \<Rightarrow> char" where
  "to_lower c =
     (if c \<in> set ''ABCDEFGHIJKLMNOPQRSTUVWXYZ'' then char_of (of_char c + (32::nat)) else c)"

subsection \<open>The document type of the stream tests\<close>

text \<open>\<open>type testDocument struct { ID int `json:"id"` }\<close>, with its decoder.\<close>

record testDocument =
  ID :: int

fun assign_testDocument ::
  "(string \<times> any) list \<Rightarrow> go_error option \<Rightarrow> testDocument \<Rightarrow> go_error option \<times> testDocument"
where
  "assign_testDocument [] err v = (err, v)"
| "assign_testDocument ((k, j) # ms) err v =
     (if map to_lower k = ''id'' then
        (case j of
           any_float64 n \<Rightarrow>
             if - (2 ^ 63) \<le> n \<and> n < 2 ^ 63 then assign_testDocument ms err (v\<lparr>ID := n\<rparr>)
             else assign_testDocument ms (first_error err json_UnmarshalTypeError) v
         | any_nil \<Rightarrow> assign_testDocument ms err v
         | _ \<Rightarrow> assign_testDocument ms (first_error err json_UnmarshalTypeError) v)
      else assign_testDocument ms err v)"

text \<open>
  \<open>dec.Decode(&v)\<close> for a \<open>testDocument\<close>; the decoder state is the input not consumed
  yet.  Nothing but white space left is end of file; a value that does not parse is a
  syntax error (Go tells the truncated value apart as \<open>io.ErrUnexpectedEOF\<close>, an error
  that is not \<open>io.EOF\<close> either).
\<close>

definition Decode_testDocument :: "(string, testDocument) Decode" where
  "Decode_testDocument d v =
     (if skip_space d = [] then (Some io_EOF, v, [])
      else (case json_parse d of
              None \<Rightarrow> (Some json_SyntaxError, v, d)
            | Some (j, rest) \<Rightarrow>
                (case j of
                   any_map ms \<Rightarrow> (case assign_testDocument ms None v of (err, v') \<Rightarrow> (err, v', rest))
                 | any_nil \<Rightarrow> (None, v, rest)
                 | _ \<Rightarrow> (Some json_UnmarshalTypeError, v, rest))))"

text \<open>
  \<open>newTestStream\<close> of the tests: status 200 and a body made with \<open>io.NopCloser\<close> over
  the payload, whose \<open>Close\<close> returns nil.
\<close>

definition newTestStream :: "string \<Rightarrow> string JSONStream option" where
  "newTestStream payload =
     newJSONStream Body
       \<lparr>StatusCode = 200, Body = payload, Body_Read_error = None,
        Body_Close_result = None, Body_Close_calls = 0\<rparr>"

text \<open>The callbacks of the tests: both append the document's id to \<open>ids\<close>.\<close>

definition collect_ids :: "testDocument \<Rightarrow> int list \<Rightarrow> go_error option \<times> int list" where
  "collect_ids doc ids = (None, ids @ [ID doc])"

definition collect_and_stop :: "testDocument \<Rightarrow> int list \<Rightarrow> go_error option \<times> int list" where
  "collect_and_stop doc ids = (Some ErrStopIteration, ids @ [ID doc])"

text \<open>A callback that stops with an error wrapping the sentinel.\<close>

definition collect_and_stop_wrapped :: "testDocument \<Rightarrow> int list \<Rightarrow> go_error option \<times> int list" where
  "collect_and_stop_wrapped doc ids =
     (Some (Wrapped ''enough: driver: stop iteration'' ErrStopIteration), ids @ [ID doc])"

definition two_records :: string where
  \<open>two_records = ''{"id":1}\<newline>{"id":2}\<newline>''\<close>

definition second_record :: string where
  \<open>second_record = ''\<newline>{"id":2}\<newline>''\<close>

definition broken_record :: string where
  \<open>broken_record = ''{"id":oops}\<newline>''\<close>

text \<open>The test stream over \<open>payload\<close> once it has been closed without a record read.\<close>

definition closed_test_stream :: "string \<Rightarrow> string JSONStream" where
  "closed_test_stream payload =
     \<lparr>resp = \<lparr>StatusCode = 200, Body = payload, Body_Read_error = None,
               Body_Close_result = None, Body_Close_calls = 1\<rparr>,
      dec = payload, closed = True\<rparr>"

subsection \<open>Unmarshal and Marshal on the fragment\<close>


text \<open>
  The text of a string in Go's encoding: quote and backslash escaped, the HTML
  characters as \<open>u003c\<close>, \<open>u003e\<close>, \<open>u0026\<close> escapes, and the three control characters with
  a one-letter escape.  Other control characters and bytes above 127 are outside the
  fragment (\<open>None\<close>).
\<close>

definition escape_char :: "char \<Rightarrow> string option" where
  "escape_char c =
     (if c = CHR 0x22 then Some [CHR 0x5C, CHR 0x22]
      else if c = CHR 0x5C then Some [CHR 0x5C, CHR 0x5C]
      else if c = CHR 0x0A then Some [CHR 0x5C, CHR ''n'']
      else if c = CHR 0x0D then Some [CHR 0x5C, CHR ''r'']
      else if c = CHR 0x09 then Some [CHR 0x5C, CHR ''t'']
      else if c = CHR ''<'' then Some (CHR 0x5C # ''u003c'')
      else if c = CHR ''>'' then Some (CHR 0x5C # ''u003e'')
      else if c = CHR ''&'' then Some (CHR 0x5C # ''u0026'')
      else if 32 \<le> (of_char c :: nat) \<and> (of_char c :: nat) < 128 then Some [c]
      else None)"

definition quote_string :: "string \<Rightarrow> string option" where
  "quote_string s =
     map_option (\<lambda>parts. [CHR 0x22] @ concat parts @ [CHR 0x22]) (those (map escape_char s))"

fun digits :: "nat \<Rightarrow> nat \<Rightarrow> string" where
  "digits 0 n = []"
| "digits (Suc f) n =
     (if n < 10 then [char_of (48 + n)] else digits f (n div 10) @ [char_of (48 + n mod 10)])"

definition show_int :: "int \<Rightarrow> string" where
  "show_int i =
     (if i < 0 then CHR ''-'' # digits (Suc (nat (- i))) (nat (- i))
      else digits (Suc (nat i)) (nat i))"

fun join_commas :: "string list \<Rightarrow> string" where
  "join_commas [] = []"
| "join_commas [x] = x"
| "join_commas (x # y # ys) = x @ '','' @ join_commas (y # ys)"

definition print_member :: "string \<Rightarrow> string option \<Rightarrow> string option" where
  "print_member k v =
     (case quote_string k of
        None \<Rightarrow> None
      | Some qk \<Rightarrow> map_option (\<lambda>pv. qk @ '':'' @ pv) v)"

text \<open>
  The compact text of a value.  A float64 is written without exponent below \<open>10^21\<close>;
  larger ones are outside the fragment.  The members of a map are written in the order
  of the list, which the caller gives in the order of the keys, as Go writes them.
\<close>

fun print_any :: "any \<Rightarrow> string option" where
  "print_any any_nil = Some ''null''"
| "print_any (any_bool b) = Some (if b then ''true'' else ''false'')"
| "print_any (any_float64 n) = (if \<bar>n\<bar> < 10 ^ 21 then Some (show_int n) else None)"
| "print_any (any_string s) = quote_string s"
| "print_any (any_slice xs) =
     map_option (\<lambda>ps. ''['' @ join_commas ps @ '']'') (those (map print_any xs))"
| "print_any (any_map ms) =
     map_option (\<lambda>ps. ''{'' @ join_commas ps @ ''}'')
       (those (map (\<lambda>kv. print_member (fst kv) (print_any (snd kv))) ms))"

text \<open>
  \<open>json.Marshal(m)\<close> for a \<open>map[string]any\<close> whose keys are among \<open>ks\<close>.  A Go map
  enumerates its keys and the encoder sorts them; a HOL function cannot be enumerated,
  so the examples pass the keys, in sorted order.
\<close>

definition json_Marshal_keys :: "string list \<Rightarrow> (string \<rightharpoonup> any) \<Rightarrow> go_error + string" where
  "json_Marshal_keys ks m =
     (case print_any (any_map (List.map_filter (\<lambda>k. map_option (Pair k) (m k)) ks)) of
        None \<Rightarrow> Inl (errors_New ''value outside the modelled fragment'')
      | Some s \<Rightarrow> Inr s)"

section \<open>Request bodies (client.go)\<close>

text \<open>
  A payload is a Go value of static type \<open>any\<close>.  The encoders tell apart: the nil
  interface, \<open>[]byte\<close>, \<open>string\<close>, \<open>json.RawMessage\<close>, and every other dynamic type.  Of a
  value of another type they can observe whether the type implements \<open>io.Reader\<close> (the
  type switch), its \<open>reflect\<close> kind, whether \<open>reflect.Value.IsNil\<close> holds (asked of maps,
  pointers and interfaces only), and what \<open>json.Marshal\<close> returns for it; a
  \<open>dynamic_value\<close> records these four.  A typed nil pointer such as
  \<open>(*FindRequest)(nil)\<close> has kind pointer, is nil, and marshals to \<open>null\<close>.
\<close>

datatype reflect_Kind =
  Kind_Map | Kind_Pointer | Kind_Interface | Kind_Slice | Kind_Struct | Kind_Other

record dynamic_value =
  implements_io_Reader :: bool
  Kind :: reflect_Kind
  IsNil :: bool
  Marshal_result :: "go_error + string"

datatype payload =
  nil_interface | go_bytes string | go_string string | RawMessage string
  | go_other dynamic_value

text \<open>
  The \<open>io.Reader\<close> an encoder returns: a reader over bytes (\<open>bytes.NewReader\<close>,
  \<open>strings.NewReader\<close>) or the payload itself, handed through.  The nil reader, no body,
  is \<open>None\<close>.
\<close>

datatype io_Reader = bytes_Reader string | payload_Reader dynamic_value

text \<open>
  \<open>strings.TrimSpace\<close> and \<open>bytes.TrimSpace\<close>, for the six white space characters of
  ASCII; the white space of Unicode beyond ASCII is not modelled.
\<close>

definition isSpace :: "char \<Rightarrow> bool" where
  "isSpace c =
     (c = CHR 0x09 \<or> c = CHR 0x0A \<or> c = CHR 0x0B \<or> c = CHR 0x0C \<or> c = CHR 0x0D \<or> c = CHR '' '')"

definition TrimSpace :: "string \<Rightarrow> string" where
  "TrimSpace s = rev (dropWhile isSpace (rev (dropWhile isSpace s)))"

definition empty_object :: "go_error + io_Reader option" where
  "empty_object = Inr (Some (bytes_Reader ''{}''))"

definition marshal_body :: "dynamic_value \<Rightarrow> go_error + io_Reader option" where
  "marshal_body d =
     (case Marshal_result d of
        Inl err \<Rightarrow> Inl err
      | Inr data \<Rightarrow> Inr (Some (bytes_Reader data)))"

definition encodeJSONPayload :: "payload \<Rightarrow> go_error + io_Reader option" where
  "encodeJSONPayload p =
     (case p of
        nil_interface \<Rightarrow> Inr None
      | go_bytes v \<Rightarrow> Inr (Some (bytes_Reader v))
      | go_string v \<Rightarrow> Inr (Some (bytes_Reader v))
      | RawMessage v \<Rightarrow> Inr (Some (bytes_Reader v))
      | go_other d \<Rightarrow>
          if implements_io_Reader d then Inr (Some (payload_Reader d))
          else marshal_body d)"

text \<open>
  The \<open>[]byte\<close> case of \<open>encodeJSONObject\<close>.  The \<open>json.RawMessage\<close> case converts its
  value to \<open>[]byte\<close> and calls \<open>encodeJSONObject\<close> again, which lands in this case.
\<close>

definition encodeJSONObject_bytes :: "string \<Rightarrow> go_error + io_Reader option" where
  "encodeJSONObject_bytes v =
     (if length (TrimSpace v) = 0 then empty_object else Inr (Some (bytes_Reader v)))"

definition encodeJSONObject :: "payload \<Rightarrow> go_error + io_Reader option" where
  "encodeJSONObject p =
     (case p of
        nil_interface \<Rightarrow> empty_object
      | go_bytes v \<Rightarrow> encodeJSONObject_bytes v
      | go_string v \<Rightarrow>
          if TrimSpace v = [] then empty_object else Inr (Some (bytes_Reader v))
      | RawMessage v \<Rightarrow> encodeJSONObject_bytes v
      | go_other d \<Rightarrow>
          if implements_io_Reader d then Inr (Some (payload_Reader d))
          else if Kind d = Kind_Map \<and> IsNil d then empty_object
          else if (Kind d = Kind_Pointer \<or> Kind d = Kind_Interface) \<and> IsNil d then empty_object
          else marshal_body d)"

definition encodeQueryRequest :: "payload \<Rightarrow> go_error + io_Reader option" where
  "encodeQueryRequest p =
     (case p of
        nil_interface \<Rightarrow> empty_object
      | go_other d \<Rightarrow>
          if (Kind d = Kind_Pointer \<or> Kind d = Kind_Interface) \<and> IsNil d then empty_object
          else encodeJSONObject p
      | _ \<Rightarrow> encodeJSONObject p)"

text \<open>Payloads of the examples: typed nil pointers and a typed nil map.\<close>

definition nil_FindRequest :: dynamic_value where
  "nil_FindRequest =
     \<lparr>implements_io_Reader = False, Kind = Kind_Pointer, IsNil = True,
      Marshal_result = Inr ''null''\<rparr>"

definition nil_bytes_Buffer :: dynamic_value where
  "nil_bytes_Buffer =
     \<lparr>implements_io_Reader = True, Kind = Kind_Pointer, IsNil = True,
      Marshal_result = Inr ''null''\<rparr>"



section \<open>Error responses (errors.go)\<close>

definition maxErrorBody :: nat where
  "maxErrorBody = 2 ^ 20"

record Error =
  Error_StatusCode :: int
  Message :: string
  Description :: string
  Error_Body :: string

text \<open>\<open>err.Error()\<close>: the text of an error.\<close>

fun Error_text :: "go_error \<Rightarrow> string" where
  "Error_text io_EOF = ''EOF''"
| "Error_text ErrStopIteration = ''driver: stop iteration''"
| "Error_text (errors_New msg) = msg"
| "Error_text (Wrapped msg inner) = msg"

text \<open>
  \<open>io.ReadAll(io.LimitReader(resp.Body, n))\<close>: the first \<open>n\<close> bytes of the body; the
  limit reader reports end of file after \<open>n\<close> bytes without reading on, so a read error
  of the body shows only when the body is shorter than \<open>n\<close>.
\<close>

definition ReadAll_LimitReader :: "http_Response \<Rightarrow> nat \<Rightarrow> string \<times> go_error option" where
  "ReadAll_LimitReader r n =
     (if n \<le> length (Body r) then (take n (Body r), None) else (Body r, Body_Read_error r))"

text \<open>
  The anonymous struct \<open>payload\<close> of \<open>parseErrorResponse\<close>: its fields
  \<open>Error.Message\<close> and \<open>Error.Description\<close>.  \<open>U\<close> is \<open>json.Unmarshal\<close> into it.
\<close>

record error_payload =
  payload_Message :: string
  payload_Description :: string

definition parseErrorResponse :: "(string \<Rightarrow> go_error + error_payload) \<Rightarrow> http_Response \<Rightarrow> Error" where
  "parseErrorResponse U r =
     (case ReadAll_LimitReader r maxErrorBody of
        (data, Some err) \<Rightarrow>
          \<lparr>Error_StatusCode = StatusCode r, Message = Error_text err, Description = [],
           Error_Body = data\<rparr>
      | (data, None) \<Rightarrow>
          (let raw_text = \<lparr>Error_StatusCode = StatusCode r, Message = TrimSpace data,
                           Description = [], Error_Body = data\<rparr>
           in if length data > 0 then
                (case U data of
                   Inr p \<Rightarrow>
                     if payload_Message p \<noteq> [] \<or> payload_Description p \<noteq> [] then
                       \<lparr>Error_StatusCode = StatusCode r, Message = payload_Message p,
                        Description = payload_Description p, Error_Body = data\<rparr>
                     else raw_text
                 | Inl err \<Rightarrow> raw_text)
              else raw_text))"

text \<open>\<open>json.Unmarshal\<close> into the struct \<open>payload\<close>, on the fragment.\<close>

fun assign_error_fields ::
  "(string \<times> any) list \<Rightarrow> go_error option \<Rightarrow> error_payload \<Rightarrow> go_error option \<times> error_payload"
where
  "assign_error_fields [] err p = (err, p)"
| "assign_error_fields ((k, j) # ms) err p =
     (if map to_lower k = ''message'' then
        (case j of
           any_string v \<Rightarrow> assign_error_fields ms err (p\<lparr>payload_Message := v\<rparr>)
         | any_nil \<Rightarrow> assign_error_fields ms err p
         | _ \<Rightarrow> assign_error_fields ms (first_error err json_UnmarshalTypeError) p)
      else if map to_lower k = ''description'' then
        (case j of
           any_string v \<Rightarrow> assign_error_fields ms err (p\<lparr>payload_Description := v\<rparr>)
         | any_nil \<Rightarrow> assign_error_fields ms err p
         | _ \<Rightarrow> assign_error_fields ms (first_error err json_UnmarshalTypeError) p)
      else assign_error_fields ms err p)"

fun assign_error_payload ::
  "(string \<times> any) list \<Rightarrow> go_error option \<Rightarrow> error_payload \<Rightarrow> go_error option \<times> error_payload"
where
  "assign_error_payload [] err p = (err, p)"
| "assign_error_payload ((k, j) # ms) err p =
     (if map to_lower k = ''error'' then
        (case j of
           any_map fs \<Rightarrow>
             (case assign_error_fields fs err p of (err', p') \<Rightarrow> assign_error_payload ms err' p')
         | any_nil \<Rightarrow> assign_error_payload ms err p
         | _ \<Rightarrow> assign_error_payload ms (first_error err json_UnmarshalTypeError) p)
      else assign_error_payload ms err p)"

definition json_Unmarshal_error_payload :: "string \<Rightarrow> go_error + error_payload" where
  "json_Unmarshal_error_payload data =
     (case json_parse data of
        None \<Rightarrow> Inl json_SyntaxError
      | Some (j, rest) \<Rightarrow>
          if skip_space rest = [] then
            (case j of
               any_map ms \<Rightarrow>
                 (case assign_error_payload ms None
                         \<lparr>payload_Message = [], payload_Description = []\<rparr> of
                    (None, p) \<Rightarrow> Inr p
                  | (Some err, p) \<Rightarrow> Inl err)
             | any_nil \<Rightarrow> Inr \<lparr>payload_Message = [], payload_Description = []\<rparr>
             | _ \<Rightarrow> Inl json_UnmarshalTypeError)
          else Inl json_SyntaxError)"

definition error_response :: "string \<Rightarrow> http_Response" where
  "error_response body =
     \<lparr>StatusCode = 404, Body = body, Body_Read_error = None,
      Body_Close_result = None, Body_Close_calls = 0\<rparr>"

text \<open>Two error bodies: plain text with a final newline, and the JSON shape.\<close>

definition not_found_body :: string where
  "not_found_body = ''not found'' @ [CHR 0x0A]"

definition boom_body :: string where
  \<open>boom_body = ''{"error":{"message":"boom","description":"it broke"}}''\<close>

section \<open>Index descriptors (the request and response types)\<close>

text \<open>
  \<open>type Index struct { Name string; Type string; Options map[string]any }\<close>.  A Go map
  is a finite map; the nil map is \<open>None\<close>.  \<open>M\<close> is \<open>json.Marshal\<close> on a
  \<open>map[string]any\<close>, \<open>U\<close> is \<open>json.Unmarshal\<close> into one that starts empty.
\<close>

record Index =
  Name :: string
  Type :: string
  Options :: "(string \<rightharpoonup> any) option"

text \<open>\<open>for k, v := range options { m[k] = v }\<close>; ranging over the nil map does nothing.\<close>

definition range_into :: "(string \<rightharpoonup> any) option \<Rightarrow> (string \<rightharpoonup> any) \<Rightarrow> (string \<rightharpoonup> any)" where
  "range_into options m = (case options of None \<Rightarrow> m | Some opts \<Rightarrow> m ++ opts)"

text \<open>The map \<open>m\<close> that \<open>Index.MarshalJSON\<close> builds and hands to \<open>json.Marshal\<close>.\<close>

definition Index_MarshalJSON_m :: "Index \<Rightarrow> (string \<rightharpoonup> any)" where
  "Index_MarshalJSON_m i =
     range_into (Options i)
       (Map.empty(''name'' \<mapsto> any_string (Name i), ''type'' \<mapsto> any_string (Type i)))"

definition Index_MarshalJSON :: "((string \<rightharpoonup> any) \<Rightarrow> go_error + string) \<Rightarrow> Index \<Rightarrow> go_error + string" where
  "Index_MarshalJSON M i = M (Index_MarshalJSON_m i)"


text \<open>\<open>type CreateIndexRequest struct\<close>, with the same three fields.\<close>

record CreateIndexRequest =
  Request_Name :: string
  Request_Type :: string
  Request_Options :: "(string \<rightharpoonup> any) option"

definition CreateIndexRequest_MarshalJSON_m :: "CreateIndexRequest \<Rightarrow> (string \<rightharpoonup> any)" where
  "CreateIndexRequest_MarshalJSON_m r =
     (let m0 = Map.empty;
          m1 = (if Request_Name r \<noteq> [] then m0(''name'' \<mapsto> any_string (Request_Name r)) else m0);
          m2 = (if Request_Type r \<noteq> [] then m1(''type'' \<mapsto> any_string (Request_Type r)) else m1)
      in range_into (Request_Options r) m2)"

definition CreateIndexRequest_MarshalJSON ::
  "((string \<rightharpoonup> any) \<Rightarrow> go_error + string) \<Rightarrow> CreateIndexRequest \<Rightarrow> go_error + string"
where
  "CreateIndexRequest_MarshalJSON M r = M (CreateIndexRequest_MarshalJSON_m r)"

text \<open>Index descriptors and a request of the examples, with their JSON text.\<close>

definition by_email :: Index where
  "by_email =
     \<lparr>Name = ''by-email'', Type = ''btree'',
      Options = Some (Map.empty(''fields'' \<mapsto> any_slice [any_string ''email''],
                                ''sparse'' \<mapsto> any_bool True))\<rparr>"




definition unnamed :: Index where
  "unnamed = \<lparr>Name = [], Type = [], Options = None\<rparr>"

definition unnamed_json :: string where
  \<open>unnamed_json = ''{"name":"","type":""}''\<close>

definition typed_request :: CreateIndexRequest where
  "typed_request =
     \<lparr>Request_Name = [], Request_Type = ''btree'',
      Request_Options = Some (Map.empty(''sparse'' \<mapsto> any_bool True))\<rparr>"

definition typed_request_json :: string where
  \<open>typed_request_json = ''{"sparse":true,"type":"btree"}''\<close>

section \<open>Facts about Close, Next and the loop of Iterate\<close>

lemma Close_nil: "Close None = (None, None)"
  by (simp add: Close_def)

lemma Close_closed: "closed st \<Longrightarrow> Close (Some st) = (None, Some st)"
  by (simp add: Close_def)

lemma Close_open:
  "\<not> closed st \<Longrightarrow> Close (Some st) = (Body_Close_result (resp st), Some (closed_stream st (dec st)))"
  by (simp add: Close_def Body_Close_def closed_stream_def)

lemma Close_leaves_closed: "\<exists>st'. snd (Close (Some st)) = Some st' \<and> closed st'"
  by (cases "closed st") (simp_all add: Close_closed Close_open closed_stream_def)

lemma Next_closed: "closed st \<Longrightarrow> Next D (Some st) v = (Some io_EOF, Some st, v)"
  by (simp add: Next_def)

lemma Next_open_ok:
  "\<not> closed st \<Longrightarrow> D (dec st) v = (None, v', d') \<Longrightarrow> Next D (Some st) v = (None, Some (st\<lparr>dec := d'\<rparr>), v')"
  by (simp add: Next_def)

lemma Next_open_error:
  "\<not> closed st \<Longrightarrow> D (dec st) v = (Some err, v', d') \<Longrightarrow>
   Next D (Some st) v = (Some (if errors_Is err io_EOF then io_EOF else err), Some (closed_stream st d'), v')"
  by (simp add: Next_def Close_def Body_Close_def closed_stream_def)

lemma Next_error_closes:
  assumes "Next D (Some st) v = (Some e, s', v')"
  shows "\<exists>st'. s' = Some st' \<and> closed st'"
proof (cases "closed st")
  case True
  with assms show ?thesis by (auto simp add: Next_closed)
next
  case False
  obtain r w d where D: "D (dec st) v = (r, w, d)" by (cases "D (dec st) v") auto
  show ?thesis
  proof (cases r)
    case None
    with False D assms show ?thesis by (simp add: Next_open_ok)
  next
    case (Some err)
    with False D assms show ?thesis by (auto simp add: Next_open_error closed_stream_def)
  qed
qed

lemma Close_released: "released_once s n \<Longrightarrow> released_once (snd (Close s)) n"
  by (cases s; cases "closed (the s)")
     (simp_all add: released_once_def Close_closed Close_open closed_stream_def Body_Close_def)

lemma Next_released: "released_once s n \<Longrightarrow> released_once (fst (snd (Next D s v))) n"
proof (cases s)
  case None
  assume "released_once s n" with None show ?thesis by (simp add: released_once_def)
next
  case (Some st)
  assume R: "released_once s n"
  obtain r w d where D: "D (dec st) v = (r, w, d)" by (cases "D (dec st) v") auto
  show ?thesis
  proof (cases "closed st")
    case True
    with R Some show ?thesis by (simp add: Next_closed)
  next
    case False
    with R Some D show ?thesis
      by (cases r)
         (simp_all add: Next_open_ok Next_open_error released_once_def closed_stream_def Body_Close_def)
  qed
qed

lemma calls_released: "released_once s n \<Longrightarrow> released_once (calls D v cs s) n"
proof (induction cs arbitrary: s)
  case Nil
  then show ?case by simp
next
  case (Cons c cs)
  then show ?case by (cases c) (simp_all add: Close_released Next_released)
qed

lemma Iterate_loop_record:
  assumes "\<not> closed st" "D (dec st) zero = (None, x, d1)" "fn x c = (None, c1)"
  shows "Iterate_loop D zero (Some st) fn c = Iterate_loop D zero (Some (st\<lparr>dec := d1\<rparr>)) fn c1"
  using assms by (subst Iterate_loop.simps) (simp add: Next_open_ok)

lemma Iterate_loop_delivered:
  assumes "delivered D zero fn d c xs d' c'"
  shows "\<not> closed st \<Longrightarrow> dec st = d \<Longrightarrow>
         Iterate_loop D zero (Some st) fn c = Iterate_loop D zero (Some (st\<lparr>dec := d'\<rparr>)) fn c'"
  using assms
proof (induction arbitrary: st rule: delivered.induct)
  case (delivered_none d c)
  from delivered_none(2) have "st\<lparr>dec := d\<rparr> = st" by auto
  then show ?case by simp
next
  case (delivered_record d x d1 c c1 xs d' c')
  have "Iterate_loop D zero (Some st) fn c = Iterate_loop D zero (Some (st\<lparr>dec := d1\<rparr>)) fn c1"
    using delivered_record.prems delivered_record.hyps(1,2) by (simp add: Iterate_loop_record)
  also have "\<dots> = Iterate_loop D zero (Some (st\<lparr>dec := d1\<rparr>\<lparr>dec := d'\<rparr>)) fn c'"
    using delivered_record.prems by (intro delivered_record.IH) simp_all
  finally show ?case by simp
qed

lemma Iterate_loop_EOF:
  assumes "\<not> closed st" "D (dec st) zero = (Some err, v, d')" "errors_Is err io_EOF"
  shows "Iterate_loop D zero (Some st) fn c = Some (None, Some (closed_stream st d'), c)"
  using assms by (subst Iterate_loop.simps) (simp add: Next_open_error)

lemma Iterate_loop_decode_error:
  assumes "\<not> closed st" "D (dec st) zero = (Some err, v, d')" "\<not> errors_Is err io_EOF"
  shows "Iterate_loop D zero (Some st) fn c = Some (Some err, Some (closed_stream st d'), c)"
  using assms by (subst Iterate_loop.simps) (simp add: Next_open_error)

lemma Iterate_loop_callback_error:
  assumes "\<not> closed st" "D (dec st) zero = (None, x, d2)" "fn x c = (Some err, c2)"
  shows "Iterate_loop D zero (Some st) fn c =
         Some (if errors_Is err ErrStopIteration
               then (case Body_Close_result (resp st) of
                       None \<Rightarrow> None
                     | Some cerr \<Rightarrow> if errors_Is cerr io_EOF then None else Some cerr)
               else Some err,
               Some (closed_stream st d2), c2)"
  using assms
  by (subst Iterate_loop.simps)
     (simp add: Next_open_ok Close_open closed_stream_def split: option.splits)

lemma yields_delivered:
  assumes "yields D zero d xs d'" "\<forall>x c. fst (fn x c) = None"
  shows "\<exists>d1 err v. delivered D zero fn d c xs d1 (fold (\<lambda>x c. snd (fn x c)) xs c)
           \<and> D d1 zero = (Some err, v, d') \<and> errors_Is err io_EOF"
  using assms(1)
proof (induction arbitrary: c rule: yields.induct)
  case (yields_EOF d err v d')
  then show ?case by (auto intro: delivered_none)
next
  case (yields_record d x d1 xs d')
  from assms(2) have fn: "fn x c = (None, snd (fn x c))"
    by (metis prod.collapse)
  from yields_record.IH[of "snd (fn x c)"] obtain d2 err v where
    "delivered D zero fn d1 (snd (fn x c)) xs d2 (fold (\<lambda>x c. snd (fn x c)) xs (snd (fn x c)))"
    "D d2 zero = (Some err, v, d')" "errors_Is err io_EOF" by blast
  with yields_record.hyps(1) fn show ?case
    by (auto intro: delivered_record)
qed

subsection \<open>The decoder of the tests on their streams\<close>

lemma Decode_first:
  "Decode_testDocument two_records \<lparr>ID = 0\<rparr> = (None, \<lparr>ID = 1\<rparr>, second_record)"
  unfolding two_records_def second_record_def by code_simp

lemma Decode_second:
  "Decode_testDocument second_record \<lparr>ID = 0\<rparr> = (None, \<lparr>ID = 2\<rparr>, [CHR 0x0A])"
  unfolding two_records_def second_record_def by code_simp

lemma Decode_end:
  "Decode_testDocument [CHR 0x0A] \<lparr>ID = 0\<rparr> = (Some io_EOF, \<lparr>ID = 0\<rparr>, [])"
  by code_simp

lemma two_records_yield:
  "yields Decode_testDocument \<lparr>ID = 0\<rparr> two_records [\<lparr>ID = 1\<rparr>, \<lparr>ID = 2\<rparr>] []"
proof -
  have "yields Decode_testDocument \<lparr>ID = 0\<rparr> [CHR 0x0A] [] []"
    by (rule yields_EOF[where D = Decode_testDocument and zero = "\<lparr>ID = 0\<rparr>", OF Decode_end]) simp
  then have "yields Decode_testDocument \<lparr>ID = 0\<rparr> second_record [\<lparr>ID = 2\<rparr>] []"
    by (rule yields_record[where D = Decode_testDocument and zero = "\<lparr>ID = 0\<rparr>", OF Decode_second])
  then show ?thesis
    by (rule yields_record[where D = Decode_testDocument and zero = "\<lparr>ID = 0\<rparr>", OF Decode_first])
qed

lemma newTestStream_eq:
  "newTestStream payload =
     Some \<lparr>resp = \<lparr>StatusCode = 200, Body = payload, Body_Read_error = None,
                   Body_Close_result = None, Body_Close_calls = 0\<rparr>,
           dec = payload, closed = False\<rparr>"
  by (simp add: newTestStream_def newJSONStream_def)

lemma Decode_broken:
  "Decode_testDocument broken_record \<lparr>ID = 0\<rparr> = (Some json_SyntaxError, \<lparr>ID = 0\<rparr>, broken_record)"
  unfolding broken_record_def by code_simp

lemma Next_broken:
  "Next Decode_testDocument (newTestStream broken_record) \<lparr>ID = 0\<rparr> =
     (Some json_SyntaxError, Some (closed_test_stream broken_record), \<lparr>ID = 0\<rparr>)"
  by (simp add: newTestStream_eq Next_open_error Decode_broken closed_stream_def Body_Close_def
        closed_test_stream_def json_SyntaxError_def)

section \<open>Iterate: the input contract\<close>

text \<open>
  C8.  With a nil stream or a nil callback \<open>Iterate\<close> returns at once with an error of its
  own (\<open>nil stream\<close>, \<open>nil iterator callback\<close>): the result does not depend on the
  decoder, the stream comes back as it was passed (no byte consumed, not closed), and
  the callback state is untouched.
\<close>

theorem Iterate_input_contract:
  "Iterate D zero None fn c = Some (Some (errors_New ''nil stream''), None, c)
   \<and> Iterate D zero (Some st) None c = Some (Some (errors_New ''nil iterator callback''), Some st, c)"
  by (simp add: Iterate_def)

section \<open>A closed stream stays closed\<close>

text \<open>
  C3.  A closed stream answers every \<open>Next\<close> with \<open>io.EOF\<close> and does not decode (the
  stream and the destination come back unchanged), and \<open>Close\<close> on it returns nil and
  changes nothing; \<open>Close\<close> on the nil stream returns nil.  A stream is closed after
  \<open>Close\<close> on any stream \<open>s2\<close>, and after every \<open>Next\<close> that returns an error, be it end
  of input or a decode error (stream \<open>s3\<close>).  Whatever sequence \<open>cs\<close> of \<open>Next\<close> and
  \<open>Close\<close> calls runs on a new stream, the body has been closed once if the stream is
  closed and not at all otherwise: never twice.
\<close>

theorem closed_stream_stays_closed:
  "(closed st \<longrightarrow> Next D (Some st) v = (Some io_EOF, Some st, v) \<and> Close (Some st) = (None, Some st))
   \<and> Close (None :: 's JSONStream option) = (None, None)
   \<and> (\<exists>st'. snd (Close (Some s2)) = Some st' \<and> closed st'
         \<and> Next D (Some st') v = (Some io_EOF, Some st', v))
   \<and> (fst (Next D (Some s3) w) \<noteq> None \<longrightarrow>
         (\<exists>st'. fst (snd (Next D (Some s3) w)) = Some st' \<and> closed st'
            \<and> Next D (Some st') v = (Some io_EOF, Some st', v)))
   \<and> (\<exists>st'. calls D v cs (newJSONStream N r) = Some st'
         \<and> Body_Close_calls (resp st') = (if closed st' then Suc (Body_Close_calls r) else Body_Close_calls r))"
proof (intro conjI impI)
  assume "closed st"
  then show "Next D (Some st) v = (Some io_EOF, Some st, v)" by (rule Next_closed)
next
  assume "closed st"
  then show "Close (Some st) = (None, Some st)" by (rule Close_closed)
next
  show "Close (None :: 's JSONStream option) = (None, None)" by (rule Close_nil)
next
  from Close_leaves_closed[of s2] obtain st' where "snd (Close (Some s2)) = Some st'" "closed st'"
    by blast
  then show "\<exists>st'. snd (Close (Some s2)) = Some st' \<and> closed st'
         \<and> Next D (Some st') v = (Some io_EOF, Some st', v)"
    by (simp add: Next_closed)
next
  assume e: "fst (Next D (Some s3) w) \<noteq> None"
  obtain err s' w' where n: "Next D (Some s3) w = (Some err, s', w')"
    using e by (cases "Next D (Some s3) w") auto
  from Next_error_closes[OF n] obtain st' where "s' = Some st'" "closed st'" by blast
  with n show "\<exists>st'. fst (snd (Next D (Some s3) w)) = Some st' \<and> closed st'
            \<and> Next D (Some st') v = (Some io_EOF, Some st', v)"
    by (simp add: Next_closed)
next
  have "released_once (newJSONStream N r) (Body_Close_calls r)"
    by (simp add: released_once_def newJSONStream_def)
  then have "released_once (calls D v cs (newJSONStream N r)) (Body_Close_calls r)"
    by (rule calls_released)
  then show "\<exists>st'. calls D v cs (newJSONStream N r) = Some st'
         \<and> Body_Close_calls (resp st') = (if closed st' then Suc (Body_Close_calls r) else Body_Close_calls r)"
    by (cases "calls D v cs (newJSONStream N r)") (simp_all add: released_once_def)
qed

text \<open>
  The witness: the test stream over a record that does not parse.  The first \<open>Next\<close>
  returns the syntax error and closes the stream; five calls later the stream is the
  same closed stream, its body closed once.
\<close>

theorem closed_stream_stays_closed_witness:
  "Next Decode_testDocument (Some (closed_test_stream broken_record)) \<lparr>ID = 0\<rparr> =
     (Some io_EOF, Some (closed_test_stream broken_record), \<lparr>ID = 0\<rparr>)
   \<and> Close (Some (closed_test_stream broken_record)) = (None, Some (closed_test_stream broken_record))
   \<and> Next Decode_testDocument (newTestStream broken_record) \<lparr>ID = 0\<rparr> =
       (Some json_SyntaxError, Some (closed_test_stream broken_record), \<lparr>ID = 0\<rparr>)
   \<and> calls Decode_testDocument \<lparr>ID = 0\<rparr> [call_Next, call_Next, call_Close, call_Next, call_Close]
       (newTestStream broken_record) = Some (closed_test_stream broken_record)"
proof -
  have c: "closed (closed_test_stream broken_record)"
    by (simp add: closed_test_stream_def)
  have "closed (closed_test_stream broken_record) \<longrightarrow>
          Next Decode_testDocument (Some (closed_test_stream broken_record)) \<lparr>ID = 0\<rparr> =
             (Some io_EOF, Some (closed_test_stream broken_record), \<lparr>ID = 0\<rparr>)
          \<and> Close (Some (closed_test_stream broken_record)) =
             (None, Some (closed_test_stream broken_record))"
    by (rule conjunct1[OF closed_stream_stays_closed])
  with c have n: "Next Decode_testDocument (Some (closed_test_stream broken_record)) \<lparr>ID = 0\<rparr> =
             (Some io_EOF, Some (closed_test_stream broken_record), \<lparr>ID = 0\<rparr>)"
    and k: "Close (Some (closed_test_stream broken_record)) = (None, Some (closed_test_stream broken_record))"
    by simp_all
  show ?thesis
    by (simp add: n k Next_broken)
qed

section \<open>Iterate: delivery in order\<close>

text \<open>
  C1.  Let the input of an open stream hold the records \<open>xs\<close> and then end, each record
  decoded into a fresh zero value, and let the callback return nil on every item.  Then
  \<open>Iterate\<close> returns, with the nil error, the stream closed at the end of the input, and
  the callback state is the one reached by calling the callback on the records of \<open>xs\<close>
  once each, in their order.
\<close>

theorem Iterate_delivers_in_order:
  assumes "yields D zero (dec st) xs d'" and "\<not> closed st" and "\<forall>x c. fst (fn x c) = None"
  shows "Iterate D zero (Some st) (Some fn) c =
         Some (None, Some (closed_stream st d'), fold (\<lambda>x c. snd (fn x c)) xs c)"
proof -
  from yields_delivered[OF assms(1,3), of c] obtain d1 err v where
    del: "delivered D zero fn (dec st) c xs d1 (fold (\<lambda>x c. snd (fn x c)) xs c)"
    and eof: "D d1 zero = (Some err, v, d')" "errors_Is err io_EOF" by blast
  have "Iterate D zero (Some st) (Some fn) c = Iterate_loop D zero (Some st) fn c"
    by (simp add: Iterate_def)
  also have "\<dots> = Iterate_loop D zero (Some (st\<lparr>dec := d1\<rparr>)) fn (fold (\<lambda>x c. snd (fn x c)) xs c)"
    by (rule Iterate_loop_delivered[OF del assms(2) refl])
  also have "\<dots> = Some (None, Some (closed_stream (st\<lparr>dec := d1\<rparr>) d'), fold (\<lambda>x c. snd (fn x c)) xs c)"
    using assms(2) eof by (intro Iterate_loop_EOF) simp_all
  finally show ?thesis by (simp add: closed_stream_def)
qed

text \<open>
  The witness is the test \<open>TestJSONStreamIterate\<close>: on the two-record stream the
  collecting callback runs twice and leaves \<open>[1, 2]\<close>.
\<close>

theorem Iterate_two_records:
  "Iterate Decode_testDocument \<lparr>ID = 0\<rparr> (newTestStream two_records) (Some collect_ids) [] =
   Some (None,
         Some \<lparr>resp = \<lparr>StatusCode = 200, Body = two_records, Body_Read_error = None,
                       Body_Close_result = None, Body_Close_calls = 1\<rparr>,
               dec = [], closed = True\<rparr>,
         [1, 2])"
proof -
  let ?st = "\<lparr>resp = \<lparr>StatusCode = 200, Body = two_records, Body_Read_error = None,
                       Body_Close_result = None, Body_Close_calls = 0\<rparr>,
              dec = two_records, closed = False\<rparr>"
  have y: "yields Decode_testDocument \<lparr>ID = 0\<rparr> (dec ?st) [\<lparr>ID = 1\<rparr>, \<lparr>ID = 2\<rparr>] []"
    using two_records_yield by simp
  have o: "\<not> closed ?st" by simp
  have f: "\<forall>x c. fst (collect_ids x c) = None" by (simp add: collect_ids_def)
  have r: "snd (collect_ids \<lparr>ID = 2\<rparr> (snd (collect_ids \<lparr>ID = 1\<rparr> []))) = [1, 2]"
    by (simp add: collect_ids_def)
  from Iterate_delivers_in_order[OF y o f, of "[]"] show ?thesis
    by (simp add: newTestStream_eq r closed_stream_def Body_Close_def)
qed

section \<open>Iterate: an error from the callback\<close>

text \<open>
  C2, as the code has it.  After the records \<open>xs\<close> were delivered, let the callback
  return the error \<open>err\<close> on the next record.  \<open>Iterate\<close> closes the stream and returns.
  If \<open>err\<close> matches \<open>ErrStopIteration\<close> under \<open>errors.Is\<close> (it is the sentinel or wraps
  it), the result is nil, unless closing the body gave an error that does not match
  \<open>io.EOF\<close>, which is returned instead.  If \<open>err\<close> does not match the sentinel, the
  result is \<open>err\<close> itself, whatever closing the body returned.
\<close>

theorem Iterate_callback_error:
  assumes "delivered D zero fn (dec st) c xs d1 c1" and "\<not> closed st"
    and "D d1 zero = (None, x, d2)" and "fn x c1 = (Some err, c2)"
  shows "Iterate D zero (Some st) (Some fn) c =
         Some (if errors_Is err ErrStopIteration
               then (case Body_Close_result (resp st) of
                       None \<Rightarrow> None
                     | Some cerr \<Rightarrow> if errors_Is cerr io_EOF then None else Some cerr)
               else Some err,
               Some (closed_stream st d2), c2)"
proof -
  have "Iterate D zero (Some st) (Some fn) c = Iterate_loop D zero (Some st) fn c"
    by (simp add: Iterate_def)
  also have "\<dots> = Iterate_loop D zero (Some (st\<lparr>dec := d1\<rparr>)) fn c1"
    by (rule Iterate_loop_delivered[OF assms(1,2) refl])
  also have "\<dots> = Some (if errors_Is err ErrStopIteration
               then (case Body_Close_result (resp (st\<lparr>dec := d1\<rparr>)) of
                       None \<Rightarrow> None
                     | Some cerr \<Rightarrow> if errors_Is cerr io_EOF then None else Some cerr)
               else Some err,
               Some (closed_stream (st\<lparr>dec := d1\<rparr>) d2), c2)"
    using assms(2,3,4) by (intro Iterate_loop_callback_error) simp_all
  finally show ?thesis by (simp add: closed_stream_def)
qed

text \<open>
  The witness is the test \<open>TestJSONStreamIterateStop\<close>: the callback returns the sentinel
  on the first record; it has run once, \<open>[1]\<close> is collected, and the result is nil.
\<close>

theorem Iterate_stop_after_first:
  "Iterate Decode_testDocument \<lparr>ID = 0\<rparr> (newTestStream two_records) (Some collect_and_stop) [] =
   Some (None,
         Some \<lparr>resp = \<lparr>StatusCode = 200, Body = two_records, Body_Read_error = None,
                       Body_Close_result = None, Body_Close_calls = 1\<rparr>,
               dec = second_record, closed = True\<rparr>,
         [1])"
proof -
  let ?st = "\<lparr>resp = \<lparr>StatusCode = 200, Body = two_records, Body_Read_error = None,
                       Body_Close_result = None, Body_Close_calls = 0\<rparr>,
              dec = two_records, closed = False\<rparr>"
  have d: "delivered Decode_testDocument \<lparr>ID = 0\<rparr> collect_and_stop (dec ?st) [] [] two_records []"
    by (simp add: delivered_none)
  have o: "\<not> closed ?st" by simp
  have c: "collect_and_stop \<lparr>ID = 1\<rparr> [] = (Some ErrStopIteration, [1])"
    by (simp add: collect_and_stop_def)
  from Iterate_callback_error[OF d o Decode_first c] show ?thesis
    by (simp add: newTestStream_eq closed_stream_def Body_Close_def)
qed

text \<open>
  The claim as stated reads "the stop sentinel, recognized by identity" and lets every
  other non-nil error of the callback through unchanged.  An error that wraps the
  sentinel is not the sentinel, and \<open>Iterate\<close> does not return it: it returns nil.
\<close>

theorem Iterate_wrapped_stop:
  "Wrapped ''enough: driver: stop iteration'' ErrStopIteration \<noteq> ErrStopIteration
   \<and> collect_and_stop_wrapped \<lparr>ID = 1\<rparr> [] =
       (Some (Wrapped ''enough: driver: stop iteration'' ErrStopIteration), [1])
   \<and> Iterate Decode_testDocument \<lparr>ID = 0\<rparr> (newTestStream two_records)
       (Some collect_and_stop_wrapped) [] =
     Some (None,
         Some \<lparr>resp = \<lparr>StatusCode = 200, Body = two_records, Body_Read_error = None,
                       Body_Close_result = None, Body_Close_calls = 1\<rparr>,
               dec = second_record, closed = True\<rparr>,
         [1])"
  using Decode_first
  by (simp add: Iterate_def Iterate_loop.simps Next_def Close_def Body_Close_def
        newTestStream_eq collect_and_stop_wrapped_def)

section \<open>Request bodies: absent payloads\<close>


lemma length_TrimSpace: "length (TrimSpace s) \<le> length s"
proof -
  have "length (dropWhile isSpace (rev (dropWhile isSpace s))) \<le> length (rev (dropWhile isSpace s))"
    by (rule length_dropWhile_le)
  then have "length (TrimSpace s) \<le> length (dropWhile isSpace s)"
    by (simp add: TrimSpace_def)
  also have "\<dots> \<le> length s" by (rule length_dropWhile_le)
  finally show ?thesis .
qed

lemma marshal_body_not_absent: "marshal_body d \<noteq> Inr None"
  by (simp add: marshal_body_def split: sum.splits)

text \<open>
  C4, as the code has it.  The nil interface value is absent for both flavors:
  \<open>encodeJSONPayload\<close> returns no body, \<open>encodeJSONObject\<close> and \<open>encodeQueryRequest\<close>
  return the two bytes of the empty object.  A pointer (or interface) that is nil at run
  time, which reflection alone can see, is absent for \<open>encodeQueryRequest\<close>, and for
  \<open>encodeJSONObject\<close> unless its type implements \<open>io.Reader\<close>: the type switch meets that
  case first and hands the value through.  \<open>encodeJSONPayload\<close> does not look at the
  run-time value: it hands a reader through and marshals anything else, so for a typed
  nil pointer it never returns "no body".
\<close>

theorem nil_reference_encoding:
  "encodeJSONPayload nil_interface = Inr None
   \<and> encodeJSONObject nil_interface = Inr (Some (bytes_Reader ''{}''))
   \<and> encodeQueryRequest nil_interface = Inr (Some (bytes_Reader ''{}''))
   \<and> ((Kind d = Kind_Pointer \<or> Kind d = Kind_Interface) \<and> IsNil d \<longrightarrow>
         encodeQueryRequest (go_other d) = Inr (Some (bytes_Reader ''{}''))
       \<and> encodeJSONObject (go_other d) =
           (if implements_io_Reader d then Inr (Some (payload_Reader d))
            else Inr (Some (bytes_Reader ''{}'')))
       \<and> encodeJSONPayload (go_other d) =
           (if implements_io_Reader d then Inr (Some (payload_Reader d)) else marshal_body d)
       \<and> encodeJSONPayload (go_other d) \<noteq> Inr None)"
  by (auto simp add: encodeJSONPayload_def encodeJSONObject_def encodeQueryRequest_def
        empty_object_def marshal_body_not_absent)

text \<open>
  The witness: \<open>(*FindRequest)(nil)\<close>, the payload of the test
  \<open>TestEncodeQueryRequestNil\<close>, and a nil \<open>*bytes.Buffer\<close>, whose type is a reader.
\<close>

theorem nil_reference_encoding_witness:
  "encodeQueryRequest (go_other nil_FindRequest) = Inr (Some (bytes_Reader ''{}''))
   \<and> encodeJSONObject (go_other nil_FindRequest) = Inr (Some (bytes_Reader ''{}''))
   \<and> encodeJSONObject (go_other nil_bytes_Buffer) = Inr (Some (payload_Reader nil_bytes_Buffer))
   \<and> encodeJSONPayload (go_other nil_FindRequest) = Inr (Some (bytes_Reader ''null''))"
  using nil_reference_encoding[of nil_FindRequest] nil_reference_encoding[of nil_bytes_Buffer]
  by (simp add: nil_FindRequest_def nil_bytes_Buffer_def marshal_body_def)

text \<open>
  The claim as stated has \<open>encodeJSONPayload\<close> produce no body for a typed nil pointer.
  It produces the body \<open>null\<close>, the encoding of a nil pointer.
\<close>

theorem typed_nil_payload_has_body:
  "Kind nil_FindRequest = Kind_Pointer \<and> IsNil nil_FindRequest
   \<and> encodeJSONPayload (go_other nil_FindRequest) = Inr (Some (bytes_Reader ''null''))
   \<and> encodeJSONPayload (go_other nil_FindRequest) \<noteq> Inr None"
  by (simp add: nil_FindRequest_def encodeJSONPayload_def marshal_body_def)




section \<open>Error responses\<close>


lemma Unmarshal_not_found: "json_Unmarshal_error_payload not_found_body = Inl json_SyntaxError"
  unfolding not_found_body_def by code_simp


lemma TrimSpace_not_found: "TrimSpace not_found_body = ''not found''"
  unfolding not_found_body_def by code_simp

lemma short_bodies: "length not_found_body < maxErrorBody" "length boom_body < maxErrorBody"
  by (simp_all add: not_found_body_def boom_body_def maxErrorBody_def)





text \<open>
  C10.  The body kept in the error is the first \<open>2^20\<close> bytes of the response body, so
  it is never longer than that; a message that is the trimmed raw body is no longer
  either, and this is the message whenever the body is read without error and does not
  decode.
\<close>

theorem parseErrorResponse_body_limit:
  "Error_Body (parseErrorResponse U r) = take maxErrorBody (Body r)
   \<and> length (Error_Body (parseErrorResponse U r)) \<le> 2 ^ 20
   \<and> (Message (parseErrorResponse U r) = TrimSpace (Error_Body (parseErrorResponse U r)) \<longrightarrow>
        length (Message (parseErrorResponse U r)) \<le> 2 ^ 20)
   \<and> (Body_Read_error r = None \<and> (\<forall>p. U (take maxErrorBody (Body r)) \<noteq> Inr p) \<longrightarrow>
        Message (parseErrorResponse U r) = TrimSpace (take maxErrorBody (Body r)))"
proof -
  have b: "Error_Body (parseErrorResponse U r) = take maxErrorBody (Body r)"
    by (auto simp add: parseErrorResponse_def ReadAll_LimitReader_def Let_def
          split: option.splits sum.splits)
  then have l: "length (Error_Body (parseErrorResponse U r)) \<le> 2 ^ 20"
    by (simp add: maxErrorBody_def)
  have m: "length (TrimSpace (Error_Body (parseErrorResponse U r))) \<le> 2 ^ 20"
    using l length_TrimSpace[of "Error_Body (parseErrorResponse U r)"] by linarith
  have f: "Body_Read_error r = None \<and> (\<forall>p. U (take maxErrorBody (Body r)) \<noteq> Inr p) \<longrightarrow>
        Message (parseErrorResponse U r) = TrimSpace (take maxErrorBody (Body r))"
    by (auto simp add: parseErrorResponse_def ReadAll_LimitReader_def Let_def
          split: option.splits sum.splits)
  from b l m f show ?thesis by simp
qed

text \<open>
  The witness: a body seven bytes over the limit is cut to \<open>2^20\<close> bytes, and the plain
  text body gives a message taken from it.
\<close>

theorem parseErrorResponse_body_limit_witness:
  "Error_Body (parseErrorResponse json_Unmarshal_error_payload
      (error_response (replicate (2 ^ 20 + 7) (CHR ''x'')))) = replicate (2 ^ 20) (CHR ''x'')
   \<and> Message (parseErrorResponse json_Unmarshal_error_payload (error_response not_found_body)) = ''not found''"
proof -
  have "\<forall>p. json_Unmarshal_error_payload (take maxErrorBody (Body (error_response not_found_body))) \<noteq> Inr p"
    using short_bodies(1) by (simp add: error_response_def Unmarshal_not_found)
  moreover have "Body_Read_error (error_response not_found_body) = None"
    by (simp add: error_response_def)
  ultimately show ?thesis
    using parseErrorResponse_body_limit[of json_Unmarshal_error_payload
            "error_response (replicate (2 ^ 20 + 7) (CHR ''x''))"]
          parseErrorResponse_body_limit[of json_Unmarshal_error_payload "error_response not_found_body"]
          short_bodies(1)
    by (simp add: error_response_def maxErrorBody_def TrimSpace_not_found)
qed

section \<open>Index descriptors: flatten and unflatten\<close>

lemma dom_range_into:
  "dom (range_into options m) = dom m \<union> (case options of None \<Rightarrow> {} | Some opts \<Rightarrow> dom opts)"
  by (cases options) (auto simp add: range_into_def)





lemma Marshal_unnamed:
  "Index_MarshalJSON (json_Marshal_keys [''name'', ''type'']) unnamed = Inr unnamed_json"
  by (simp add: Index_MarshalJSON_def Index_MarshalJSON_m_def range_into_def unnamed_def
        json_Marshal_keys_def List.map_filter_def)
     code_simp

lemma Marshal_typed_request:
  "CreateIndexRequest_MarshalJSON (json_Marshal_keys [''name'', ''sparse'', ''type'']) typed_request =
     Inr typed_request_json"
  by (simp add: CreateIndexRequest_MarshalJSON_def CreateIndexRequest_MarshalJSON_m_def range_into_def
        typed_request_def json_Marshal_keys_def List.map_filter_def)
     code_simp






text \<open>
  C6, as the code has it.  The keys of the object that \<open>CreateIndexRequest.MarshalJSON\<close>
  hands to \<open>json.Marshal\<close> are the keys of the options together with \<open>name\<close> if the name
  is not empty and \<open>type\<close> if the type is not empty.  \<open>Index.MarshalJSON\<close> has no such
  test: its keys are the keys of the options together with \<open>name\<close> and \<open>type\<close>, always.
\<close>

theorem flatten_keys:
  "dom (CreateIndexRequest_MarshalJSON_m r) =
     (if Request_Name r \<noteq> [] then {''name''} else {})
     \<union> (if Request_Type r \<noteq> [] then {''type''} else {})
     \<union> (case Request_Options r of None \<Rightarrow> {} | Some opts \<Rightarrow> dom opts)
   \<and> CreateIndexRequest_MarshalJSON M r = M (CreateIndexRequest_MarshalJSON_m r)
   \<and> dom (Index_MarshalJSON_m i) =
     {''name'', ''type''} \<union> (case Options i of None \<Rightarrow> {} | Some opts \<Rightarrow> dom opts)
   \<and> Index_MarshalJSON M i = M (Index_MarshalJSON_m i)"
  by (auto simp add: CreateIndexRequest_MarshalJSON_m_def CreateIndexRequest_MarshalJSON_def
        Index_MarshalJSON_m_def Index_MarshalJSON_def dom_range_into Let_def)

text \<open>
  The witness: a request with an empty name, a type and one option, and the index of
  the round trip.
\<close>

theorem flatten_keys_witness:
  "dom (CreateIndexRequest_MarshalJSON_m typed_request) = {''type'', ''sparse''}
   \<and> CreateIndexRequest_MarshalJSON (json_Marshal_keys [''name'', ''sparse'', ''type'']) typed_request =
       Inr typed_request_json
   \<and> dom (Index_MarshalJSON_m by_email) = {''name'', ''type'', ''fields'', ''sparse''}"
  using flatten_keys[of typed_request "json_Marshal_keys [''name'', ''sparse'', ''type'']" by_email]
    Marshal_typed_request
  by (auto simp add: typed_request_def by_email_def)

text \<open>
  The claim as stated has an empty fixed field contribute no key, for every entity.  The
  index with empty name and type is written with both keys.
\<close>

theorem empty_fixed_fields_emitted:
  "Name unnamed = [] \<and> Type unnamed = []
   \<and> dom (Index_MarshalJSON_m unnamed) = {''name'', ''type''}
   \<and> Index_MarshalJSON (json_Marshal_keys [''name'', ''type'']) unnamed = Inr unnamed_json"
proof -
  have "dom (Index_MarshalJSON_m unnamed) = {''name'', ''type''}"
    by (auto simp add: unnamed_def Index_MarshalJSON_m_def dom_range_into)
  moreover have "Name unnamed = []" "Type unnamed = []"
    by (simp_all add: unnamed_def)
  ultimately show ?thesis
    by (simp add: Marshal_unnamed)
qed

end
